theory Spec2Isabelle
  imports Complex_Main
begin

section \<open>Data model of plot.C\<close>

text \<open>
  The program reads histograms from files, computes a vertical axis range that keeps the
  plotted data clear of the legend, and prints the canvas to a PNG file. The embedding
  follows \<^verbatim>\<open>src/src/plot.C\<close>.

  A finite C++ \<^verbatim>\<open>double\<close> is a \<^typ>\<open>real\<close>: comparisons, \<^verbatim>\<open>std::min\<close> and
  \<^verbatim>\<open>std::max\<close> are exact on finite doubles, whereas double-precision sums, products,
  quotients, \<^verbatim>\<open>log10\<close> and \<^verbatim>\<open>pow\<close> are taken without their rounding in the last
  place. Two things are not idealised. The pad margins are single-precision numbers
  (\<^verbatim>\<open>Float_t\<close>), and the subtractions of line 22 that involve only them are rounded to
  single precision (\<open>round_float\<close>): the quotient is truncated to an \<^verbatim>\<open>int\<close>, and
  at a whole quotient the eighth digit of the width decides the threshold. (The height of
  lines 254 and 266 is taken exact; there the eighth digit moves a bound, not a bin.)
  And the logarithm of zero or of a negative number is an infinity or a NaN: the
  logarithmic branch computes in the type \<open>double\<close> below, which has them.
  A C++ \<^verbatim>\<open>int\<close> that is only stored or compared is an \<^typ>\<open>int\<close>.
\<close>

text \<open>
  What the C++ standard leaves undefined is an explicit error value of the model:
  dereferencing a null histogram pointer, converting a floating-point value outside the
  range of \<^verbatim>\<open>int\<close> with \<^verbatim>\<open>static_cast<int>\<close>, and writing to a string past its end.
\<close>

datatype undefined_behaviour = NullDereference | CastOutOfRange | OutOfBoundsWrite

text \<open>
  A \<^verbatim>\<open>TH1\<close> holds bins numbered from 1 to \<^verbatim>\<open>GetNbinsX()\<close>; each bin has a content
  (\<^verbatim>\<open>GetBinContent\<close>) and an error (\<^verbatim>\<open>GetBinError\<close>). The drawing attributes are the
  ones \<^verbatim>\<open>histInfo::retrieveHistogram\<close> sets.
\<close>

record TH1 =
  bins :: "(real \<times> real) list"
  LineColor :: int
  LineWidth :: int
  MarkerColor :: int
  MarkerStyle :: int

definition GetNbinsX :: "TH1 \<Rightarrow> nat" where
  "GetNbinsX hist = length (bins hist)"

text \<open>\<^verbatim>\<open>TLegend(x1, y1, x2, y2)\<close>: \<open>Y1\<close> is the lower edge of the box, \<open>Y2\<close> the upper one.\<close>

record TLegend =
  X1 :: real
  Y1 :: real
  X2 :: real
  Y2 :: real

record TPad =
  LeftMargin :: real
  RightMargin :: real
  TopMargin :: real
  BottomMargin :: real

text \<open>
  The three running values \<^verbatim>\<open>gmin\<close>, \<^verbatim>\<open>gmax\<close>, \<^verbatim>\<open>gpThreshMax\<close> that
  \<^verbatim>\<open>smartMax\<close> receives by reference, and likewise its three locals
  \<^verbatim>\<open>min\<close>, \<^verbatim>\<open>max\<close>, \<^verbatim>\<open>pThreshMax\<close>.
\<close>

record Range =
  rmin :: real
  rmax :: real
  rThreshMax :: real

section \<open>smartMax\<close>

text \<open>
  \<^verbatim>\<open>std::max(a, b)\<close> is \<^verbatim>\<open>(a < b) ? b : a\<close> and \<^verbatim>\<open>std::min(a, b)\<close> is
  \<^verbatim>\<open>(b < a) ? b : a\<close>.
\<close>

definition std_max :: "real \<Rightarrow> real \<Rightarrow> real" where
  "std_max a b = (if a < b then b else a)"

definition std_min :: "real \<Rightarrow> real \<Rightarrow> real" where
  "std_min a b = (if b < a then b else a)"

text \<open>
  \<^verbatim>\<open>static_cast<int>(x)\<close> on a double discards the fractional part (rounds towards
  zero); the behaviour is undefined when the truncated value does not fit a 32-bit
  \<^verbatim>\<open>int\<close>.
\<close>

definition static_cast_int :: "real \<Rightarrow> undefined_behaviour + int" where
  "static_cast_int x =
     (let t = (if 0 \<le> x then \<lfloor>x\<rfloor> else \<lceil>x\<rceil>)
      in if - (2 ^ 31) \<le> t \<and> t < 2 ^ 31 then Inr t else Inl CastOutOfRange)"

text \<open>
  Single precision. A nonzero real \<open>x\<close> lies in one binade \<open>2^e \<le> |x| < 2^(e+1)\<close>,
  where the single-precision numbers are the multiples of \<open>2^(e-23)\<close>; an operation on
  two \<^verbatim>\<open>float\<close> values returns the exact result rounded to the nearest of them, to the
  one with an even last digit when two are equally near. The range of the exponent is not
  modelled (the margins of a pad are fractions of its width and height).
\<close>

definition round_half_even :: "real \<Rightarrow> int" where
  "round_half_even x =
     (let f = \<lfloor>x\<rfloor>; d = x - of_int f
      in if d < 1 / 2 then f else if 1 / 2 < d then f + 1 else if even f then f else f + 1)"

definition float_ulp :: "real \<Rightarrow> real" where
  "float_ulp x = 2 powr (of_int \<lfloor>log 2 \<bar>x\<bar>\<rfloor> - 23)"

definition round_float :: "real \<Rightarrow> real" where
  "round_float x = (if x = 0 then 0 else of_int (round_half_even (x / float_ulp x)) * float_ulp x)"

text \<open>
  \<^verbatim>\<open>(1 - p->GetRightMargin()) - p->GetLeftMargin()\<close>: the getters return \<^verbatim>\<open>Float_t\<close>
  and \<open>1\<close> is an \<^verbatim>\<open>int\<close>, so both subtractions are single-precision operations.
\<close>

definition pad_width :: "TPad \<Rightarrow> real" where
  "pad_width p = round_float (round_float (1 - RightMargin p) - LeftMargin p)"

text \<open>
  Line 22:
  \<^verbatim>\<open>threshold = static_cast<int>(h->GetNbinsX()*(l->GetX1() - p->GetLeftMargin())
                                  /((1 - p->GetRightMargin()) - p->GetLeftMargin()))\<close>.
  \<^verbatim>\<open>GetX1()\<close> is a double, so the numerator is computed in double precision, and the
  single-precision width is converted to double for the division. With a zero width the
  quotient is an infinity or NaN, whose conversion to \<^verbatim>\<open>int\<close> is undefined.
\<close>

definition threshold_of :: "TH1 \<Rightarrow> TLegend \<Rightarrow> TPad \<Rightarrow> undefined_behaviour + int" where
  "threshold_of hist l p =
     (let d = pad_width p
      in if d = 0 then Inl CastOutOfRange
         else static_cast_int (real (GetNbinsX hist) * (X1 l - LeftMargin p) / d))"

text \<open>The sentinels of lines 19 to 21 and the epsilon of line 30.\<close>

definition sentinel_hi :: real where
  "sentinel_hi = 9 * 10 ^ 99"

definition sentinel_lo :: real where
  "sentinel_lo = - (9 * 10 ^ 99)"

definition epsilon :: real where
  "epsilon = 1 / 10 ^ 10"

definition locals_init :: Range where
  "locals_init = \<lparr>rmin = sentinel_hi, rmax = sentinel_lo, rThreshMax = sentinel_lo\<rparr>"

text \<open>Lines 26 to 28: the value of one bin, with its error added when the flag is set.\<close>

definition bin_value :: "bool \<Rightarrow> real \<times> real \<Rightarrow> real" where
  "bin_value error b = (if error then fst b + snd b else fst b)"

text \<open>
  Lines 29 to 31, the body of the loop for bin number \<open>i\<close>: the minimum is examined only
  in the \<^verbatim>\<open>else\<close> branch of the test that raises the maximum.
\<close>

definition smartMax_body :: "int \<Rightarrow> int \<Rightarrow> real \<Rightarrow> Range \<Rightarrow> Range" where
  "smartMax_body threshold i bin loc =
     (let loc1 = (if bin > rmax loc then loc\<lparr>rmax := bin\<rparr>
                  else if bin > epsilon \<and> bin < rmin loc then loc\<lparr>rmin := bin\<rparr>
                  else loc)
      in if i \<ge> threshold \<and> bin > rThreshMax loc1 then loc1\<lparr>rThreshMax := bin\<rparr> else loc1)"

text \<open>
  Lines 24 to 32: the loop \<^verbatim>\<open>for(int i = 1; i <= h->GetNbinsX(); ++i)\<close>, as a recursion
  over the bins that remain, \<open>i\<close> being the number of the first of them. The number of
  bins of a \<^verbatim>\<open>TH1\<close> is itself an \<^verbatim>\<open>int\<close>, and the histogram keeps two more cells
  than bins, so the counter stays below the largest \<^verbatim>\<open>int\<close>.
\<close>

fun smartMax_loop :: "int \<Rightarrow> bool \<Rightarrow> int \<Rightarrow> (real \<times> real) list \<Rightarrow> Range \<Rightarrow> Range" where
  "smartMax_loop threshold error i [] loc = loc"
| "smartMax_loop threshold error i (b # bs) loc =
     smartMax_loop threshold error (i + 1) bs (smartMax_body threshold i (bin_value error b) loc)"

text \<open>The locals at the end of the loop, for a given threshold.\<close>

definition smartMax_locals :: "int \<Rightarrow> bool \<Rightarrow> TH1 \<Rightarrow> Range" where
  "smartMax_locals threshold error hist = smartMax_loop threshold error 1 (bins hist) locals_init"

text \<open>Lines 34 to 36: the locals are merged into the running values.\<close>

definition merge_range :: "Range \<Rightarrow> Range \<Rightarrow> Range" where
  "merge_range g loc =
     \<lparr>rmin = std_min (rmin g) (rmin loc),
      rmax = std_max (rmax g) (rmax loc),
      rThreshMax = std_max (rThreshMax g) (rThreshMax loc)\<rparr>"

text \<open>
  \<^verbatim>\<open>smartMax(h, l, p, gmin, gmax, gpThreshMax, error)\<close>. The histogram pointer may be
  null (\<open>None\<close>); the function dereferences it without a test.
\<close>

definition smartMax :: "TH1 option \<Rightarrow> TLegend \<Rightarrow> TPad \<Rightarrow> Range \<Rightarrow> bool \<Rightarrow> undefined_behaviour + Range" where
  "smartMax hopt l p g error =
     (case hopt of
        None \<Rightarrow> Inl NullDereference
      | Some hist \<Rightarrow>
          (case threshold_of hist l p of
             Inl e \<Rightarrow> Inl e
           | Inr threshold \<Rightarrow> Inr (merge_range g (smartMax_locals threshold error hist))))"

text \<open>A sequence of calls on the same legend and pad, each with its own error flag.\<close>

fun smartMax_calls :: "(TH1 option \<times> bool) list \<Rightarrow> TLegend \<Rightarrow> TPad \<Rightarrow> Range \<Rightarrow> undefined_behaviour + Range" where
  "smartMax_calls [] l p g = Inr g"
| "smartMax_calls ((hopt, error) # cs) l p g =
     (case smartMax hopt l p g error of
        Inl e \<Rightarrow> Inl e
      | Inr g' \<Rightarrow> smartMax_calls cs l p g')"

text \<open>
  Lines 176 to 178, 206, 219 and 231 of \<^verbatim>\<open>Plotter::plot\<close>: the running values start
  at \<open>0.0\<close>; the data histogram is scanned with its errors, then the background sum and
  each signal histogram without.
\<close>

definition plot_range_init :: Range where
  "plot_range_init = \<lparr>rmin = 0, rmax = 0, rThreshMax = 0\<rparr>"

definition plot_range :: "TH1 option \<Rightarrow> TH1 option \<Rightarrow> TH1 option list \<Rightarrow> TLegend \<Rightarrow> TPad \<Rightarrow> undefined_behaviour + Range" where
  "plot_range data hbgSum sigs l p =
     smartMax_calls ((data, True) # (hbgSum, False) # map (\<lambda>s. (s, False)) sigs) l p plot_range_init"

section \<open>The vertical axis range\<close>

text \<open>Line 168: the legend is created at fixed coordinates.\<close>

definition plot_leg :: TLegend where
  "plot_leg = \<lparr>X1 = 50 / 100, Y1 = 56 / 100, X2 = 89 / 100, Y2 = 88 / 100\<rparr>"

text \<open>Line 243: \<^verbatim>\<open>dummy.setupPad(0.12, 0.06, 0.08, 0.0)\<close> sets the margins of the upper pad.\<close>

definition plot_pad1 :: TPad where
  "plot_pad1 = \<lparr>LeftMargin = 12 / 100, RightMargin = 6 / 100, TopMargin = 8 / 100, BottomMargin = 0\<rparr>"

text \<open>Line 253: \<^verbatim>\<open>locMin = std::min(0.2, std::max(0.2, 0.05 * min))\<close>.\<close>

definition locMin_log :: "real \<Rightarrow> real" where
  "locMin_log mn = std_min (2 / 10) (std_max (2 / 10) (5 / 100 * mn))"

text \<open>
  The values of a double: the finite ones, the two infinities and NaN. The operations
  below follow IEEE 754 on them, without rounding. The sign of a zero is not represented:
  a zero divisor is taken as \<open>+0.0\<close>, which is what the two divisors of lines 254 and 258
  are when they are zero, each being a difference of two equal numbers.
\<close>

datatype double = Finite real | PlusInf | MinusInf | NaN

text \<open>The infinity of a given sign; \<open>inf * 0\<close> and \<open>0 / 0\<close> are NaN.\<close>

definition inf_of_sign :: "real \<Rightarrow> double" where
  "inf_of_sign s = (if 0 < s then PlusInf else if s < 0 then MinusInf else NaN)"

fun d_sign :: "double \<Rightarrow> real" where
  "d_sign (Finite a) = sgn a"
| "d_sign PlusInf = 1"
| "d_sign MinusInf = - 1"
| "d_sign NaN = 0"

fun d_neg :: "double \<Rightarrow> double" where
  "d_neg (Finite a) = Finite (- a)"
| "d_neg PlusInf = MinusInf"
| "d_neg MinusInf = PlusInf"
| "d_neg NaN = NaN"

fun d_add :: "double \<Rightarrow> double \<Rightarrow> double" where
  "d_add (Finite a) (Finite b) = Finite (a + b)"
| "d_add NaN y = NaN"
| "d_add x NaN = NaN"
| "d_add PlusInf MinusInf = NaN"
| "d_add MinusInf PlusInf = NaN"
| "d_add PlusInf y = PlusInf"
| "d_add x PlusInf = PlusInf"
| "d_add MinusInf y = MinusInf"
| "d_add x MinusInf = MinusInf"

definition d_sub :: "double \<Rightarrow> double \<Rightarrow> double" where
  "d_sub x y = d_add x (d_neg y)"

fun d_mul :: "double \<Rightarrow> double \<Rightarrow> double" where
  "d_mul (Finite a) (Finite b) = Finite (a * b)"
| "d_mul NaN y = NaN"
| "d_mul x NaN = NaN"
| "d_mul x y = inf_of_sign (d_sign x * d_sign y)"

fun d_div :: "double \<Rightarrow> double \<Rightarrow> double" where
  "d_div (Finite a) (Finite b) = (if b = 0 then inf_of_sign (sgn a) else Finite (a / b))"
| "d_div NaN y = NaN"
| "d_div x NaN = NaN"
| "d_div (Finite a) y = Finite 0"
| "d_div x (Finite b) = inf_of_sign (d_sign x * (if b < 0 then - 1 else 1))"
| "d_div x y = NaN"

text \<open>\<^verbatim>\<open>x > y\<close>: false as soon as one side is NaN.\<close>

fun d_gt :: "double \<Rightarrow> double \<Rightarrow> bool" where
  "d_gt (Finite a) (Finite b) \<longleftrightarrow> a > b"
| "d_gt NaN y \<longleftrightarrow> False"
| "d_gt x NaN \<longleftrightarrow> False"
| "d_gt x PlusInf \<longleftrightarrow> False"
| "d_gt MinusInf y \<longleftrightarrow> False"
| "d_gt PlusInf y \<longleftrightarrow> True"
| "d_gt x MinusInf \<longleftrightarrow> True"

text \<open>
  \<^verbatim>\<open>log10\<close> of a finite double: minus infinity at zero, NaN below.
\<close>

definition c_log10 :: "real \<Rightarrow> double" where
  "c_log10 x = (if 0 < x then Finite (log 10 x) else if x = 0 then MinusInf else NaN)"

text \<open>
  \<^verbatim>\<open>pow(x, y)\<close> for a finite base \<open>x\<close>, after Annex F of the C standard: 1 for a zero
  exponent and for the base 1 whatever the other argument; NaN for a NaN exponent
  otherwise; for an infinite exponent 0, 1 or infinity as \<open>|x|\<close> compares with 1; for a
  finite nonzero exponent the power, which for a zero base is 0 or infinity, and for a
  negative base exists only when the exponent is an integer.
\<close>

fun c_pow :: "real \<Rightarrow> double \<Rightarrow> double" where
  "c_pow x NaN = (if x = 1 then Finite 1 else NaN)"
| "c_pow x PlusInf = (if \<bar>x\<bar> < 1 then Finite 0 else if 1 < \<bar>x\<bar> then PlusInf else Finite 1)"
| "c_pow x MinusInf = (if \<bar>x\<bar> < 1 then PlusInf else if 1 < \<bar>x\<bar> then Finite 0 else Finite 1)"
| "c_pow x (Finite y) =
     (if y = 0 then Finite 1
      else if 0 < x then Finite (x powr y)
      else if x = 0 then (if y < 0 then PlusInf else Finite 0)
      else if y = of_int \<lfloor>y\<rfloor>
           then Finite (if even \<lfloor>y\<rfloor> then \<bar>x\<bar> powr y else - (\<bar>x\<bar> powr y))
           else NaN)"

text \<open>
  Lines 254 and 255 of the logarithmic branch. \<^verbatim>\<open>leg->GetY1()\<close> is a double, the
  difference with the bottom margin is computed in double precision.
\<close>

definition legSpan_log :: "TLegend \<Rightarrow> TPad \<Rightarrow> Range \<Rightarrow> double" where
  "legSpan_log l p g =
     d_div
       (d_mul (d_sub (c_log10 (3 * rmax g)) (c_log10 (locMin_log (rmin g))))
              (Finite (Y1 l - BottomMargin p)))
       (Finite ((1 - TopMargin p) - BottomMargin p))"

definition legMin_log :: "TLegend \<Rightarrow> TPad \<Rightarrow> Range \<Rightarrow> double" where
  "legMin_log l p g = d_add (legSpan_log l p g) (c_log10 (locMin_log (rmin g)))"

text \<open>Line 256: the test that triggers the rescale.\<close>

definition rescale_log :: "TLegend \<Rightarrow> TPad \<Rightarrow> Range \<Rightarrow> bool" where
  "rescale_log l p g \<longleftrightarrow> d_gt (c_log10 (rThreshMax g)) (legMin_log l p g)"

text \<open>Lines 256 to 260: the value of \<^verbatim>\<open>max\<close> after the conditional rescale.\<close>

definition max_log :: "TLegend \<Rightarrow> TPad \<Rightarrow> Range \<Rightarrow> double" where
  "max_log l p g =
     (let locMin = locMin_log (rmin g)
      in if rescale_log l p g
         then (let scale = d_div (d_sub (c_log10 (rThreshMax g)) (c_log10 locMin))
                                 (d_sub (legMin_log l p g) (c_log10 locMin))
               in d_mul (c_pow (rmax g / locMin) scale) (Finite locMin))
         else Finite (rmax g))"

text \<open>Line 266 of the linear branch, with \<^verbatim>\<open>locMin = 0.0\<close>.\<close>

definition legMin_lin :: "TLegend \<Rightarrow> TPad \<Rightarrow> Range \<Rightarrow> real" where
  "legMin_lin l p g =
     (12 / 10 * rmax g - 0) * (Y1 l - BottomMargin p) / ((1 - TopMargin p) - BottomMargin p)"

text \<open>Line 267: \<^verbatim>\<open>if(lmax > legMin) max *= (lmax - locMin)/(legMin - locMin)\<close>.\<close>

definition max_lin :: "TLegend \<Rightarrow> TPad \<Rightarrow> Range \<Rightarrow> real" where
  "max_lin l p g =
     (if rThreshMax g > legMin_lin l p g
      then rmax g * ((rThreshMax g - 0) / (legMin_lin l p g - 0))
      else rmax g)"

text \<open>
  Lines 251 to 269: the pair given to \<^verbatim>\<open>SetRangeUser\<close>, lower bound first. The lower
  bound is \<open>0.2\<close> or \<open>0.0\<close>; the upper bound of the linear branch is the product of
  line 268.
\<close>

definition y_range :: "bool \<Rightarrow> TLegend \<Rightarrow> TPad \<Rightarrow> Range \<Rightarrow> real \<times> double" where
  "y_range isLogY l p g =
     (if isLogY then (locMin_log (rmin g), d_mul (Finite 10) (max_log l p g))
      else (0, Finite (max_lin l p g * (13 / 10))))"

text \<open>
  The specification words the linear threshold with the upper edge of the legend
  (\<open>legendTop\<close>) where line 266 reads \<^verbatim>\<open>leg->GetY1()\<close>. This second definition
  follows the specification, for comparison with \<open>legMin_lin\<close>.
\<close>

definition spec_legendMin_lin :: "TLegend \<Rightarrow> TPad \<Rightarrow> Range \<Rightarrow> real" where
  "spec_legendMin_lin l p g =
     12 / 10 * rmax g * (Y2 l - BottomMargin p) / ((1 - TopMargin p) - BottomMargin p)"

section \<open>histInfo::retrieveHistogram\<close>

text \<open>
  \<^verbatim>\<open>c_str()\<close> hands a C string to \<^verbatim>\<open>printf\<close>, \<^verbatim>\<open>TFile::Open\<close>, \<^verbatim>\<open>TFile::Get\<close> and
  \<^verbatim>\<open>TCanvas::Print\<close>: they read it up to the first NUL character.
\<close>

definition c_str :: "string \<Rightarrow> string" where
  "c_str s = takeWhile (\<lambda>c. c \<noteq> CHR 0x00) s"






section \<open>The name of the image file\<close>

text \<open>
  \<^verbatim>\<open>name.find("/", pos)\<close>: the index of the first \<open>/\<close> at or after \<open>pos\<close>, or
  \<^verbatim>\<open>std::string::npos\<close>, which is \<open>None\<close> here.
\<close>

fun find_first :: "char \<Rightarrow> string \<Rightarrow> nat option" where
  "find_first c [] = None"
| "find_first c (x # xs) = (if x = c then Some 0 else map_option Suc (find_first c xs))"

definition string_find :: "string \<Rightarrow> char \<Rightarrow> nat \<Rightarrow> nat option" where
  "string_find s c pos = map_option (\<lambda>k. pos + k) (find_first c (drop pos s))"

lemma find_first_bound: "find_first c xs = Some k \<Longrightarrow> k < length xs"
  by (induction xs arbitrary: k) (auto split: if_splits)

lemma string_find_bounds: "string_find s c pos = Some j \<Longrightarrow> pos \<le> j \<and> j < length s"
  by (auto simp: string_find_def dest: find_first_bound)

text \<open>
  Lines 372 to 376, entered with \<open>pos\<close> as line 371 (or the previous test) left it:
  \<^verbatim>\<open>do { name[pos] = '_'; } while((pos = name.find("/", pos + 1)) != std::string::npos)\<close>.
  The body runs before the test; \<^verbatim>\<open>name[pos]\<close> with \<open>pos\<close> at \<^verbatim>\<open>npos\<close>, or anywhere
  at or past the end of the string, is a write out of bounds.
\<close>

function replace_loop :: "string \<Rightarrow> nat option \<Rightarrow> undefined_behaviour + string" where
  "replace_loop name pos =
     (case pos of
        None \<Rightarrow> Inl OutOfBoundsWrite
      | Some i \<Rightarrow>
          if i \<ge> length name then Inl OutOfBoundsWrite
          else (let name' = name[i := CHR ''_'']
                in case string_find name' CHR ''/'' (i + 1) of
                     None \<Rightarrow> Inr name'
                   | Some j \<Rightarrow> replace_loop name' (Some j)))"
  by pat_completeness auto
termination
proof (relation "measure (\<lambda>(name, pos). length name - (case pos of None \<Rightarrow> 0 | Some i \<Rightarrow> i))")
  show "wf (measure (\<lambda>(name, pos). length name - (case pos of None \<Rightarrow> 0 | Some i \<Rightarrow> i)))"
    by simp
next
  fix name :: string and pos i name' j
  assume "pos = Some i" and "\<not> length name \<le> i" and "name' = name[i := CHR ''_'']"
    and "string_find name' CHR ''/'' (i + 1) = Some j"
  then show "((name', Some j), (name, pos))
      \<in> measure (\<lambda>(name, pos). length name - (case pos of None \<Rightarrow> 0 | Some i \<Rightarrow> i))"
    using string_find_bounds [of name' "CHR ''/''" "i + 1" j] by auto
qed

declare replace_loop.simps [simp del]

text \<open>What the loop is meant to do to each character.\<close>

abbreviation slash_to_underscore :: "char \<Rightarrow> char" where
  "slash_to_underscore c \<equiv> (if c = CHR ''/'' then CHR ''_'' else c)"

text \<open>
  Lines 370 to 377: the name given to \<^verbatim>\<open>c->Print\<close>, for the argument
  \<^verbatim>\<open>histName\<close> of \<^verbatim>\<open>plot\<close> (here \<open>hname\<close>).
\<close>

definition plot_png_name :: "string \<Rightarrow> undefined_behaviour + string" where
  "plot_png_name hname =
     (case replace_loop hname (string_find hname CHR ''/'' 0) of
        Inl e \<Rightarrow> Inl e
      | Inr name \<Rightarrow> Inr (c_str (name @ ''.png'')))"


section \<open>Properties of smartMax\<close>

lemma std_max_eq: "std_max a b = max a b"
  by (simp add: std_max_def max_def)

lemma std_min_eq: "std_min a b = min a b"
  by (simp add: std_min_def min_def)

lemma smartMax_body_rmax:
  "rmax (smartMax_body t i x loc) = max (rmax loc) x"
  by (simp add: smartMax_body_def Let_def)

lemma smartMax_body_rThreshMax:
  "rThreshMax (smartMax_body t i x loc) = (if t \<le> i then max (rThreshMax loc) x else rThreshMax loc)"
  by (simp add: smartMax_body_def Let_def)

lemma Max_insert_max:
  "finite A \<Longrightarrow> Max (insert (max a b) A) = Max (insert a (insert b A))"
  for a b :: real
  by (cases "A = {}") (simp_all add: max.assoc)


text \<open>
  The zone maximum ranges over the bins numbered \<open>threshold\<close> and above: with the loop at
  bin \<open>i\<close>, these are the remaining bins but the first \<open>threshold - i\<close>.
\<close>

lemma smartMax_loop_rThreshMax:
  "rThreshMax (smartMax_loop t e i bs loc)
     = Max (insert (rThreshMax loc) (bin_value e ` set (drop (nat (t - i)) bs)))"
proof (induction bs arbitrary: i loc)
  case Nil
  show ?case by simp
next
  case (Cons b bs)
  show ?case
  proof (cases "t \<le> i")
    case True
    then have d: "nat (t - i) = 0" "nat (t - (i + 1)) = 0" by simp_all
    have "rThreshMax (smartMax_loop t e i (b # bs) loc)
        = Max (insert (max (rThreshMax loc) (bin_value e b)) (bin_value e ` set bs))"
      using True d by (simp add: Cons.IH smartMax_body_rThreshMax)
    also have "\<dots> = Max (insert (rThreshMax loc) (insert (bin_value e b) (bin_value e ` set bs)))"
      by (rule Max_insert_max) simp
    finally show ?thesis
      using d by simp
  next
    case False
    then have d: "nat (t - i) = Suc (nat (t - (i + 1)))" by simp
    from False show ?thesis
      by (simp add: Cons.IH smartMax_body_rThreshMax d)
  qed
qed

lemma smartMax_locals_rThreshMax:
  "rThreshMax (smartMax_locals t e hist)
     = Max (insert sentinel_lo (bin_value e ` set (drop (nat (t - 1)) (bins hist))))"
  by (simp add: smartMax_locals_def smartMax_loop_rThreshMax locals_init_def)

lemma smartMax_loop_rThreshMax_le:
  "rThreshMax loc \<le> rmax loc \<Longrightarrow>
   rThreshMax (smartMax_loop t e i bs loc) \<le> rmax (smartMax_loop t e i bs loc)"
proof (induction bs arbitrary: i loc)
  case Nil
  then show ?case by simp
next
  case (Cons b bs)
  have "rThreshMax (smartMax_body t i (bin_value e b) loc) \<le> rmax (smartMax_body t i (bin_value e b) loc)"
    using Cons.prems by (simp add: smartMax_body_rmax smartMax_body_rThreshMax)
  then show ?case
    by (simp add: Cons.IH)
qed

lemma smartMax_locals_rThreshMax_le:
  "rThreshMax (smartMax_locals t e hist) \<le> rmax (smartMax_locals t e hist)"
  unfolding smartMax_locals_def
  by (rule smartMax_loop_rThreshMax_le) (simp add: locals_init_def)

lemma smartMax_monotonic:
  "smartMax hopt l p g e = Inr g' \<Longrightarrow>
     rmin g' \<le> rmin g \<and> rmax g \<le> rmax g' \<and> rThreshMax g \<le> rThreshMax g'"
  by (auto simp: smartMax_def merge_range_def std_max_eq std_min_eq split: option.splits sum.splits)

lemma smartMax_keeps_zone:
  assumes "smartMax hopt l p g e = Inr g'" and "rThreshMax g \<le> rmax g"
  shows "rThreshMax g' \<le> rmax g'"
proof -
  from assms(1) obtain hist t where g': "g' = merge_range g (smartMax_locals t e hist)"
    by (auto simp: smartMax_def split: option.splits sum.splits)
  have "rThreshMax (smartMax_locals t e hist) \<le> rmax (smartMax_locals t e hist)"
    by (rule smartMax_locals_rThreshMax_le)
  with assms(2) show ?thesis
    unfolding g' merge_range_def std_max_eq by simp linarith
qed

lemma smartMax_keeps_min:
  assumes "smartMax hopt l p g e = Inr g'" and "rmin g \<le> rmax g"
  shows "rmin g' \<le> rmax g'"
proof -
  from assms(1) obtain hist t where g': "g' = merge_range g (smartMax_locals t e hist)"
    by (auto simp: smartMax_def split: option.splits sum.splits)
  from assms(2) show ?thesis
    unfolding g' merge_range_def std_max_eq std_min_eq by simp
qed

lemma smartMax_calls_keeps_zone:
  "smartMax_calls cs l p g = Inr g' \<Longrightarrow> rThreshMax g \<le> rmax g \<Longrightarrow> rThreshMax g' \<le> rmax g'"
proof (induction cs arbitrary: g)
  case Nil
  then show ?case by simp
next
  case (Cons c cs)
  obtain hopt e where c: "c = (hopt, e)" by (cases c)
  from Cons.prems c obtain g1 where
    s: "smartMax hopt l p g e = Inr g1" and r: "smartMax_calls cs l p g1 = Inr g'"
    by (auto split: sum.splits)
  from smartMax_keeps_zone [OF s] Cons.prems have "rThreshMax g1 \<le> rmax g1"
    by simp
  with Cons.IH [OF r] show ?case by simp
qed

lemma smartMax_calls_keeps_min:
  "smartMax_calls cs l p g = Inr g' \<Longrightarrow> rmin g \<le> rmax g \<Longrightarrow> rmin g' \<le> rmax g'"
proof (induction cs arbitrary: g)
  case Nil
  then show ?case by simp
next
  case (Cons c cs)
  obtain hopt e where c: "c = (hopt, e)" by (cases c)
  from Cons.prems c obtain g1 where
    s: "smartMax hopt l p g e = Inr g1" and r: "smartMax_calls cs l p g1 = Inr g'"
    by (auto split: sum.splits)
  from smartMax_keeps_min [OF s] Cons.prems have "rmin g1 \<le> rmax g1"
    by simp
  with Cons.IH [OF r] show ?case by simp
qed











text \<open>
  Bins at or below the epsilon never lower the minimum: a series without a bin above
  \<open>1e-10\<close> leaves it at the sentinel.
\<close>

lemma smartMax_body_rmin_no_data:
  "x \<le> epsilon \<Longrightarrow> rmin (smartMax_body t i x loc) = rmin loc"
  by (simp add: smartMax_body_def Let_def)

lemma smartMax_loop_rmin_no_data:
  "\<forall>b \<in> set bs. bin_value e b \<le> epsilon \<Longrightarrow> rmin (smartMax_loop t e i bs loc) = rmin loc"
  by (induction bs arbitrary: i loc) (simp_all add: smartMax_body_rmin_no_data)

subsection \<open>Single precision on explicit numbers\<close>

lemma float_ulp_binade:
  assumes "2 powr of_int e \<le> \<bar>x\<bar>" and "\<bar>x\<bar> < 2 powr (of_int e + 1)"
  shows "float_ulp x = 2 powr (of_int e - 23)"
proof -
  have "0 < (2::real) powr of_int e"
    by simp
  with assms(1) have pos: "0 < \<bar>x\<bar>"
    by linarith
  have "of_int e \<le> log 2 \<bar>x\<bar>"
    using assms(1) pos by (simp add: le_log_iff)
  moreover have "log 2 \<bar>x\<bar> < of_int e + 1"
    using assms(2) pos by (simp add: log_less_iff)
  ultimately have "\<lfloor>log 2 \<bar>x\<bar>\<rfloor> = e"
    by (simp add: floor_unique)
  then show ?thesis
    by (simp add: float_ulp_def)
qed

text \<open>Between one half and one the single-precision numbers are the multiples of \<open>2^-24\<close>.\<close>

lemma round_float_half_to_one:
  assumes "1 / 2 \<le> x" and "x < 1"
  shows "round_float x = of_int (round_half_even (x * 2 ^ 24)) / 2 ^ 24"
proof -
  have "float_ulp x = 2 powr (of_int (- 1) - 23)"
    by (rule float_ulp_binade) (use assms in \<open>simp_all add: powr_minus\<close>)
  then have u: "float_ulp x = 1 / 2 ^ 24"
    by (simp add: powr_minus divide_simps)
  have "x \<noteq> 0"
    using assms by simp
  then show ?thesis
    unfolding round_float_def u by simp
qed

text \<open>Evaluation of the model on explicit histograms.\<close>

lemmas smartMax_eval =
  smartMax_def threshold_of_def static_cast_int_def GetNbinsX_def plot_leg_def plot_pad1_def
  pad_width_def round_float_half_to_one round_half_even_def
  smartMax_locals_def smartMax_body_def locals_init_def bin_value_def sentinel_lo_def
  sentinel_hi_def epsilon_def merge_range_def std_min_def std_max_def plot_range_def
  plot_range_init_def

text \<open>
  C2: for every series, \<^verbatim>\<open>smartMax\<close> computes as \<open>max\<close> the largest bin value and as
  \<open>min\<close> the smallest bin value above \<open>1e-10\<close>, leaving \<open>min\<close> at \<open>9e99\<close> only when no
  bin exceeds \<open>1e-10\<close>. The maximum is as stated (\<open>smartMax_loop_rmax\<close>). The minimum is
  not: a bin that raises the running maximum takes the first branch of line 29 and is
  never compared with \<open>min\<close> on line 30. On the two bins 3 and 5, scanned without errors
  into running values that hold the sentinels, the smallest value above \<open>1e-10\<close> is 3,
  and \<^verbatim>\<open>smartMax\<close> leaves the minimum at \<open>9e99\<close>.
\<close>

theorem smartMax_min_skips_rising_bins:
  "smartMax (Some \<lparr>bins = [(3, 0), (5, 0)], LineColor = 1, LineWidth = 3, MarkerColor = 1, MarkerStyle = 20\<rparr>)
     plot_leg plot_pad1 \<lparr>rmin = sentinel_hi, rmax = sentinel_lo, rThreshMax = sentinel_lo\<rparr> False
   = Inr \<lparr>rmin = sentinel_hi, rmax = 5, rThreshMax = 5\<rparr>"
  by (simp add: smartMax_eval)

subsection \<open>The threshold\<close>

lemma static_cast_int_nonpos: "x \<le> 0 \<Longrightarrow> static_cast_int x = Inr t \<Longrightarrow> t \<le> 0"
  by (auto simp: static_cast_int_def Let_def split: if_splits)

lemma static_cast_int_ge: "real n \<le> x \<Longrightarrow> static_cast_int x = Inr t \<Longrightarrow> int n \<le> t"
  by (auto simp: static_cast_int_def Let_def le_floor_iff split: if_splits)

lemma threshold_of_left:
  assumes "0 < pad_width p" and "threshold_of hist l p = Inr t"
    and "X1 l \<le> LeftMargin p"
  shows "t \<le> 0"
proof -
  have "real (GetNbinsX hist) * (X1 l - LeftMargin p) \<le> 0"
    using assms(3) by (simp add: mult_nonneg_nonpos)
  then have "real (GetNbinsX hist) * (X1 l - LeftMargin p) / pad_width p \<le> 0"
    using assms(1) by (simp add: divide_nonpos_pos)
  moreover have "static_cast_int (real (GetNbinsX hist) * (X1 l - LeftMargin p) / pad_width p) = Inr t"
    using assms(1,2) by (simp add: threshold_of_def Let_def)
  ultimately show ?thesis by (rule static_cast_int_nonpos)
qed

lemma threshold_of_right:
  assumes "0 < pad_width p" and "threshold_of hist l p = Inr t"
    and "pad_width p \<le> X1 l - LeftMargin p"
  shows "int (GetNbinsX hist) \<le> t"
proof -
  have "real (GetNbinsX hist) * pad_width p \<le> real (GetNbinsX hist) * (X1 l - LeftMargin p)"
    using assms(3) by (rule mult_left_mono) simp
  then have "real (GetNbinsX hist) \<le> real (GetNbinsX hist) * (X1 l - LeftMargin p) / pad_width p"
    using assms(1) by (simp add: pos_le_divide_eq)
  moreover have "static_cast_int (real (GetNbinsX hist) * (X1 l - LeftMargin p) / pad_width p) = Inr t"
    using assms(1,2) by (simp add: threshold_of_def Let_def)
  ultimately show ?thesis by (rule static_cast_int_ge)
qed

lemma drop_all_but_last: "xs \<noteq> [] \<Longrightarrow> drop (length xs - Suc 0) xs = [last xs]"
  by (induction xs rule: rev_induct) simp_all

text \<open>
  C3, as stated: with the left edge of the legend at or beyond \<open>1 - rightMargin\<close> no bin
  enters the zone maximum, which stays at \<open>-9e99\<close>. It fails where the threshold equals
  the number of bins: the loop runs \<open>i\<close> from 1 to \<open>N\<close> and takes the bins with
  \<open>i >= threshold\<close>, so bin \<open>N\<close> is taken. Two bins 1 and 7, margins \<open>0.25\<close> on both
  sides and the legend at \<open>0.75 = 1 - 0.25\<close> give threshold 2 and zone maximum 7.
\<close>

theorem zone_threshold_last_bin_counterexample:
  "1 - RightMargin \<lparr>LeftMargin = 1 / 4, RightMargin = 1 / 4, TopMargin = 1 / 10, BottomMargin = 1 / 10\<rparr>
     \<le> X1 \<lparr>X1 = 3 / 4, Y1 = 1 / 2, X2 = 9 / 10, Y2 = 9 / 10\<rparr>
   \<and> smartMax (Some \<lparr>bins = [(1, 0), (7, 0)], LineColor = 1, LineWidth = 3, MarkerColor = 1, MarkerStyle = 20\<rparr>)
        \<lparr>X1 = 3 / 4, Y1 = 1 / 2, X2 = 9 / 10, Y2 = 9 / 10\<rparr>
        \<lparr>LeftMargin = 1 / 4, RightMargin = 1 / 4, TopMargin = 1 / 10, BottomMargin = 1 / 10\<rparr>
        \<lparr>rmin = sentinel_hi, rmax = sentinel_lo, rThreshMax = sentinel_lo\<rparr> False
      = Inr \<lparr>rmin = sentinel_hi, rmax = 7, rThreshMax = 7\<rparr>
   \<and> 7 \<noteq> sentinel_lo"
  by (simp add: smartMax_eval)

text \<open>
  The width of line 22 is a single-precision number, and it can exceed the exact
  \<open>(1 - rightMargin) - leftMargin\<close>. With a right margin of \<open>0.2\<close>, stored as the
  single-precision number \<open>13421773 / 2^26\<close>, and no left margin, the width is
  \<open>13421773 / 2^24\<close>, just above \<open>0.8\<close>: a legend at \<open>0.8\<close> is beyond
  \<open>1 - rightMargin\<close>, and yet with two bins the threshold is 1 and both bins enter the
  zone maximum. What decides is the computed width.
\<close>

lemma threshold_single_precision:
  "1 - RightMargin \<lparr>LeftMargin = 0, RightMargin = 13421773 / 67108864, TopMargin = 1 / 10, BottomMargin = 1 / 10\<rparr>
     \<le> X1 \<lparr>X1 = 8 / 10, Y1 = 1 / 2, X2 = 9 / 10, Y2 = 9 / 10\<rparr>
   \<and> pad_width \<lparr>LeftMargin = 0, RightMargin = 13421773 / 67108864, TopMargin = 1 / 10, BottomMargin = 1 / 10\<rparr>
      = 13421773 / 16777216
   \<and> smartMax (Some \<lparr>bins = [(7, 0), (1, 0)], LineColor = 1, LineWidth = 3, MarkerColor = 1, MarkerStyle = 20\<rparr>)
        \<lparr>X1 = 8 / 10, Y1 = 1 / 2, X2 = 9 / 10, Y2 = 9 / 10\<rparr>
        \<lparr>LeftMargin = 0, RightMargin = 13421773 / 67108864, TopMargin = 1 / 10, BottomMargin = 1 / 10\<rparr>
        \<lparr>rmin = sentinel_hi, rmax = sentinel_lo, rThreshMax = sentinel_lo\<rparr> False
      = Inr \<lparr>rmin = 1, rmax = 7, rThreshMax = 7\<rparr>"
  by (simp add: smartMax_eval)

text \<open>
  C3, amended: on a pad whose width, \<open>(1 - rightMargin) - leftMargin\<close> as line 22
  computes it in single precision, is positive, and with a threshold that fits an
  \<^verbatim>\<open>int\<close>: when the left edge of the legend is at or before the left margin, the
  threshold is at most 0 and every bin enters the zone maximum; when it lies beyond the
  left margin by the computed width or more, the threshold is at least the number \<open>N\<close> of
  bins, no bin before the last enters, and the zone maximum is the sentinel \<open>-9e99\<close>
  unless the threshold is exactly \<open>N\<close>, where it is the larger of the sentinel and the
  last bin.
\<close>

theorem zone_threshold_extremes:
  assumes "0 < pad_width p" and "threshold_of hist l p = Inr t"
  shows "(X1 l \<le> LeftMargin p \<longrightarrow>
            t \<le> 0 \<and>
            rThreshMax (smartMax_locals t e hist) = Max (insert sentinel_lo (bin_value e ` set (bins hist))))
       \<and> (pad_width p \<le> X1 l - LeftMargin p \<longrightarrow>
            int (GetNbinsX hist) \<le> t \<and>
            rThreshMax (smartMax_locals t e hist) =
              (if t = int (GetNbinsX hist) \<and> bins hist \<noteq> []
               then max sentinel_lo (bin_value e (last (bins hist)))
               else sentinel_lo))"
proof (intro conjI impI)
  assume a: "X1 l \<le> LeftMargin p"
  from threshold_of_left [OF assms a] show t: "t \<le> 0" .
  then have "nat (t - 1) = 0" by simp
  then show "rThreshMax (smartMax_locals t e hist) = Max (insert sentinel_lo (bin_value e ` set (bins hist)))"
    by (simp add: smartMax_locals_rThreshMax)
next
  assume a: "pad_width p \<le> X1 l - LeftMargin p"
  from threshold_of_right [OF assms a] show t: "int (GetNbinsX hist) \<le> t" .
  show "rThreshMax (smartMax_locals t e hist) =
          (if t = int (GetNbinsX hist) \<and> bins hist \<noteq> []
           then max sentinel_lo (bin_value e (last (bins hist)))
           else sentinel_lo)"
  proof (cases "t = int (GetNbinsX hist) \<and> bins hist \<noteq> []")
    case True
    then have "nat (t - 1) = length (bins hist) - Suc 0"
      by (simp add: GetNbinsX_def nat_diff_distrib')
    with True show ?thesis
      by (simp add: smartMax_locals_rThreshMax drop_all_but_last max.commute)
  next
    case False
    with t have "length (bins hist) \<le> nat (t - 1)"
      by (auto simp: GetNbinsX_def)
    then have "drop (nat (t - 1)) (bins hist) = []"
      by simp
    then have "rThreshMax (smartMax_locals t e hist) = sentinel_lo"
      by (simp add: smartMax_locals_rThreshMax)
    with False show ?thesis
      by (simp only: if_False)
  qed
qed

theorem zone_threshold_extremes_witness:
  "threshold_of \<lparr>bins = [(7, 0), (1, 0)], LineColor = 1, LineWidth = 3, MarkerColor = 1, MarkerStyle = 20\<rparr>
       \<lparr>X1 = 1 / 4, Y1 = 1 / 2, X2 = 9 / 10, Y2 = 9 / 10\<rparr>
       \<lparr>LeftMargin = 1 / 4, RightMargin = 1 / 4, TopMargin = 1 / 10, BottomMargin = 1 / 10\<rparr> = Inr 0
   \<and> rThreshMax (smartMax_locals 0 False
         \<lparr>bins = [(7, 0), (1, 0)], LineColor = 1, LineWidth = 3, MarkerColor = 1, MarkerStyle = 20\<rparr>) = 7
   \<and> threshold_of \<lparr>bins = [(7, 0), (1, 0)], LineColor = 1, LineWidth = 3, MarkerColor = 1, MarkerStyle = 20\<rparr>
       \<lparr>X1 = 3 / 4, Y1 = 1 / 2, X2 = 9 / 10, Y2 = 9 / 10\<rparr>
       \<lparr>LeftMargin = 1 / 4, RightMargin = 1 / 4, TopMargin = 1 / 10, BottomMargin = 1 / 10\<rparr> = Inr 2
   \<and> rThreshMax (smartMax_locals 2 False
         \<lparr>bins = [(7, 0), (1, 0)], LineColor = 1, LineWidth = 3, MarkerColor = 1, MarkerStyle = 20\<rparr>) = 1
   \<and> threshold_of \<lparr>bins = [(7, 0), (1, 0)], LineColor = 1, LineWidth = 3, MarkerColor = 1, MarkerStyle = 20\<rparr>
       \<lparr>X1 = 1, Y1 = 1 / 2, X2 = 1, Y2 = 9 / 10\<rparr>
       \<lparr>LeftMargin = 1 / 4, RightMargin = 1 / 4, TopMargin = 1 / 10, BottomMargin = 1 / 10\<rparr> = Inr 3
   \<and> rThreshMax (smartMax_locals 3 False
         \<lparr>bins = [(7, 0), (1, 0)], LineColor = 1, LineWidth = 3, MarkerColor = 1, MarkerStyle = 20\<rparr>) = sentinel_lo"
  using
    zone_threshold_extremes [of
      "\<lparr>LeftMargin = 1 / 4, RightMargin = 1 / 4, TopMargin = 1 / 10, BottomMargin = 1 / 10\<rparr>"
      "\<lparr>bins = [(7, 0), (1, 0)], LineColor = 1, LineWidth = 3, MarkerColor = 1, MarkerStyle = 20\<rparr>"
      "\<lparr>X1 = 1 / 4, Y1 = 1 / 2, X2 = 9 / 10, Y2 = 9 / 10\<rparr>" 0 False]
    zone_threshold_extremes [of
      "\<lparr>LeftMargin = 1 / 4, RightMargin = 1 / 4, TopMargin = 1 / 10, BottomMargin = 1 / 10\<rparr>"
      "\<lparr>bins = [(7, 0), (1, 0)], LineColor = 1, LineWidth = 3, MarkerColor = 1, MarkerStyle = 20\<rparr>"
      "\<lparr>X1 = 3 / 4, Y1 = 1 / 2, X2 = 9 / 10, Y2 = 9 / 10\<rparr>" 2 False]
    zone_threshold_extremes [of
      "\<lparr>LeftMargin = 1 / 4, RightMargin = 1 / 4, TopMargin = 1 / 10, BottomMargin = 1 / 10\<rparr>"
      "\<lparr>bins = [(7, 0), (1, 0)], LineColor = 1, LineWidth = 3, MarkerColor = 1, MarkerStyle = 20\<rparr>"
      "\<lparr>X1 = 1, Y1 = 1 / 2, X2 = 1, Y2 = 9 / 10\<rparr>" 3 False]
  by (simp add: smartMax_eval)


subsection \<open>The running values\<close>

text \<open>
  C7: the merge into the running values is monotonic. Over any sequence of
  \<^verbatim>\<open>smartMax\<close> calls, in whatever order the histograms come, the running maximum and
  the running zone maximum never decrease and the running minimum never increases.
\<close>

theorem smartMax_calls_monotonic:
  "smartMax_calls cs l p g = Inr g' \<Longrightarrow>
     rmin g' \<le> rmin g \<and> rmax g \<le> rmax g' \<and> rThreshMax g \<le> rThreshMax g'"
proof (induction cs arbitrary: g)
  case Nil
  then show ?case by simp
next
  case (Cons c cs)
  obtain hopt e where c: "c = (hopt, e)" by (cases c)
  from Cons.prems c obtain g1 where
    s: "smartMax hopt l p g e = Inr g1" and r: "smartMax_calls cs l p g1 = Inr g'"
    by (auto split: sum.splits)
  from smartMax_monotonic [OF s] Cons.IH [OF r] show ?case
    by linarith
qed

theorem smartMax_calls_monotonic_witness:
  "smartMax_calls
     [(Some \<lparr>bins = [(5, 2), (3, 1)], LineColor = 1, LineWidth = 3, MarkerColor = 1, MarkerStyle = 20\<rparr>, True),
      (Some \<lparr>bins = [(2, 0), (9, 0)], LineColor = 2, LineWidth = 3, MarkerColor = 2, MarkerStyle = 20\<rparr>, False)]
     plot_leg plot_pad1 \<lparr>rmin = 10, rmax = 1, rThreshMax = 1\<rparr>
   = Inr \<lparr>rmin = 4, rmax = 9, rThreshMax = 9\<rparr>
   \<and> rmin \<lparr>rmin = 4, rmax = 9, rThreshMax = 9\<rparr> \<le> rmin \<lparr>rmin = 10, rmax = 1, rThreshMax = 1\<rparr>
   \<and> rmax \<lparr>rmin = 10, rmax = 1, rThreshMax = 1\<rparr> \<le> rmax \<lparr>rmin = 4, rmax = 9, rThreshMax = 9\<rparr>
   \<and> rThreshMax \<lparr>rmin = 10, rmax = 1, rThreshMax = 1\<rparr> \<le> rThreshMax \<lparr>rmin = 4, rmax = 9, rThreshMax = 9\<rparr>"
  using smartMax_calls_monotonic [of
      "[(Some \<lparr>bins = [(5, 2), (3, 1)], LineColor = 1, LineWidth = 3, MarkerColor = 1, MarkerStyle = 20\<rparr>, True),
        (Some \<lparr>bins = [(2, 0), (9, 0)], LineColor = 2, LineWidth = 3, MarkerColor = 2, MarkerStyle = 20\<rparr>, False)]"
      plot_leg plot_pad1 "\<lparr>rmin = 10, rmax = 1, rThreshMax = 1\<rparr>" "\<lparr>rmin = 4, rmax = 9, rThreshMax = 9\<rparr>"]
  by (simp add: smartMax_eval)




text \<open>
  In \<^verbatim>\<open>plot\<close> the three running values start at \<open>0.0\<close>, and both orderings hold after
  its scans.
\<close>

lemma plot_range_from_zero:
  assumes "plot_range data hbgSum sigs l p = Inr g"
  shows "rmin g \<le> rmax g \<and> rThreshMax g \<le> rmax g"
  using smartMax_calls_keeps_min [OF assms [unfolded plot_range_def]]
    smartMax_calls_keeps_zone [OF assms [unfolded plot_range_def]]
  by (simp add: plot_range_init_def)


section \<open>Properties of the vertical axis range\<close>


text \<open>
  C5: for every value of the overall minimum, the floor of the logarithmic axis,
  \<^verbatim>\<open>std::min(0.2, std::max(0.2, 0.05 * min))\<close>, is exactly \<open>0.2\<close>.
\<close>

theorem locMin_log_constant: "locMin_log mn = 2 / 10"
  by (simp add: locMin_log_def std_min_def std_max_def)



subsection \<open>The logarithmic branch\<close>

text \<open>
  With a positive maximum and a pad of nonzero height every quantity of lines 254 and 255
  is finite. A zone maximum of zero or below has no finite logarithm and never triggers
  the rescale. For a positive one, the test of line 256 compares it with the value at the
  collision decade, \<open>0.2 * (15 * max)\<close> to the power of the fraction of the pad that lies
  below the lower edge of the legend.
\<close>

lemma locMin_log_fifth: "locMin_log mn = 1 / 5"
  by (simp add: locMin_log_def std_min_def std_max_def)

lemma legMin_log_finite:
  assumes "0 < rmax g" and "(1 - TopMargin p) - BottomMargin p \<noteq> 0"
  shows "legMin_log l p g
       = Finite ((log 10 (3 * rmax g) - log 10 (1 / 5)) * (Y1 l - BottomMargin p)
                   / ((1 - TopMargin p) - BottomMargin p) + log 10 (1 / 5))"
  using assms by (simp add: legMin_log_def legSpan_log_def locMin_log_fifth c_log10_def d_sub_def)

lemma d_gt_MinusInf: "\<not> d_gt MinusInf y"
  by (cases y) simp_all

lemma rescale_log_nonpos: "rThreshMax g \<le> 0 \<Longrightarrow> \<not> rescale_log l p g"
  by (simp add: rescale_log_def c_log10_def d_gt_MinusInf)

lemma rescale_log_iff:
  assumes "0 < rmax g" and "0 < rThreshMax g" and "(1 - TopMargin p) - BottomMargin p \<noteq> 0"
  shows "rescale_log l p g \<longleftrightarrow>
           2 / 10 * (15 * rmax g) powr ((Y1 l - BottomMargin p) / ((1 - TopMargin p) - BottomMargin p))
             < rThreshMax g"
proof -
  let ?r = "(Y1 l - BottomMargin p) / ((1 - TopMargin p) - BottomMargin p)"
  have a: "log 10 (3 * rmax g) - log 10 (1 / 5) = log 10 (15 * rmax g)"
    using log_divide_pos [of "3 * rmax g" "1 / 5" 10] assms(1) by (simp add: mult.commute)
  have b: "log 10 (rThreshMax g) - log 10 (1 / 5) = log 10 (5 * rThreshMax g)"
    using log_divide_pos [of "rThreshMax g" "1 / 5" 10] assms(2) by (simp add: mult.commute)
  have "rescale_log l p g \<longleftrightarrow>
          log 10 (15 * rmax g) * (Y1 l - BottomMargin p) / ((1 - TopMargin p) - BottomMargin p)
            + log 10 (1 / 5) < log 10 (rThreshMax g)"
    using assms by (simp add: rescale_log_def legMin_log_finite c_log10_def a)
  also have "\<dots> \<longleftrightarrow> ?r * log 10 (15 * rmax g) < log 10 (5 * rThreshMax g)"
    using b by (simp add: algebra_simps)
  also have "\<dots> \<longleftrightarrow> log 10 ((15 * rmax g) powr ?r) < log 10 (5 * rThreshMax g)"
    by (simp only: log_powr)
  also have "\<dots> \<longleftrightarrow> (15 * rmax g) powr ?r < 5 * rThreshMax g"
    using assms(1,2) by (subst log_less_cancel_iff) simp_all
  also have "\<dots> \<longleftrightarrow> 2 / 10 * (15 * rmax g) powr ?r < rThreshMax g"
    by (simp add: mult.commute)
  finally show ?thesis .
qed


text \<open>
  With the legend and the margins of \<^verbatim>\<open>plot\<close> the fraction below the legend is
  \<open>0.56 / 0.92\<close>. For an overall maximum of 100 the collision decade is
  \<open>log10(1500) * 14 / 23 + log10(0.2)\<close>, about 1.23, at the value
  \<open>0.2 * 1500^(14/23)\<close>, about 17.
\<close>

lemma log_1500_250: "14 * log 10 1500 < 23 * log 10 250"
proof -
  have "log 10 (1500 ^ 14) < log 10 (250 ^ 23)"
    by (rule iffD2 [OF log_less_cancel_iff]) simp_all
  then show ?thesis
    by (simp only: log_nat_power [of 1500 10 14] log_nat_power [of 250 10 23] zero_le_numeral of_nat_numeral)
qed

lemma log_1500_lower: "3 \<le> log 10 1500"
proof -
  have "log 10 (10 ^ 3) \<le> log 10 1500"
    by (rule iffD2 [OF log_le_cancel_iff]) simp_all
  then have "3 * log 10 10 \<le> log 10 1500"
    by (simp only: log_nat_power [of 10 10 3] zero_le_numeral of_nat_numeral)
  then show ?thesis by simp
qed

lemma log_50_upper: "log 10 50 \<le> 9 / 5"
proof -
  have "log 10 (50 ^ 5) \<le> log 10 (10 ^ 9)"
    by (rule iffD2 [OF log_le_cancel_iff]) simp_all
  then have "5 * log 10 50 \<le> 9 * log 10 10"
    by (simp only: log_nat_power [of 50 10 5] log_nat_power [of 10 10 9] zero_le_numeral of_nat_numeral)
  then show ?thesis by simp
qed

lemma powr_1500_upper: "1500 powr (14 / 23) < (250::real)"
proof -
  have "log 10 (1500 powr (14 / 23)) < log 10 250"
    using log_1500_250 by (simp add: log_powr)
  then show ?thesis
    by (subst (asm) log_less_cancel_iff) simp_all
qed

lemma powr_1500_lower: "(50::real) \<le> 1500 powr (14 / 23)"
proof -
  have "log 10 50 \<le> log 10 (1500 powr (14 / 23))"
    using log_50_upper log_1500_lower by (simp add: log_powr)
  then show ?thesis
    by (subst (asm) log_le_cancel_iff) simp_all
qed

lemma plot_exponent:
  "(Y1 plot_leg - BottomMargin plot_pad1) / ((1 - TopMargin plot_pad1) - BottomMargin plot_pad1) = 14 / 23"
  by (simp add: plot_leg_def plot_pad1_def)

lemma plot_height: "(1 - TopMargin plot_pad1) - BottomMargin plot_pad1 \<noteq> 0"
  by (simp add: plot_pad1_def)

lemma rescale_log_50: "rescale_log plot_leg plot_pad1 \<lparr>rmin = 1, rmax = 100, rThreshMax = 50\<rparr>"
proof -
  have "rescale_log plot_leg plot_pad1 \<lparr>rmin = 1, rmax = 100, rThreshMax = 50\<rparr>
      \<longleftrightarrow> 2 / 10 * (15 * 100) powr (14 / 23) < (50::real)"
    using rescale_log_iff [of "\<lparr>rmin = 1, rmax = 100, rThreshMax = 50\<rparr>" plot_pad1 plot_leg] plot_height
    by (simp only: plot_exponent) simp
  then show ?thesis
    using powr_1500_upper by simp
qed

lemma log_300_fifth: "log 10 300 - log 10 (1 / 5) = log 10 1500"
  using log_divide_pos [of 300 "1 / 5" 10] by simp

lemma log_50_fifth: "log 10 50 - log 10 (1 / 5) = log 10 250"
  using log_divide_pos [of 50 "1 / 5" 10] by simp

lemma legMin_log_100:
  "rmax g = 100 \<Longrightarrow> legMin_log plot_leg plot_pad1 g = Finite (log 10 1500 * 14 / 23 + log 10 (1 / 5))"
  using log_300_fifth legMin_log_finite [of g plot_pad1 plot_leg] plot_height
  by (simp add: plot_leg_def plot_pad1_def)

lemma max_log_50:
  "max_log plot_leg plot_pad1 \<lparr>rmin = 1, rmax = 100, rThreshMax = 50\<rparr>
     = Finite (500 powr (log 10 250 / (log 10 1500 * 14 / 23)) * (1 / 5))"
proof -
  have nz: "log 10 1500 \<noteq> 0" "log 10 250 \<noteq> 0"
    using log_1500_lower log_1500_250 by simp_all
  show ?thesis
    using rescale_log_50 nz log_50_fifth
    by (simp add: max_log_def Let_def locMin_log_fifth legMin_log_100 c_log10_def d_sub_def)
qed

lemma scale_50: "1 < log 10 250 / (log 10 1500 * 14 / 23)"
proof -
  have "0 < log 10 1500 * 14 / 23"
    using log_1500_lower by simp
  moreover have "log 10 1500 * 14 / 23 < log 10 250"
    using log_1500_250 by simp
  ultimately show ?thesis
    by (simp only: less_divide_eq_1_pos)
qed

lemma upper_50:
  "d_gt (snd (y_range True plot_leg plot_pad1 \<lparr>rmin = 1, rmax = 100, rThreshMax = 50\<rparr>)) (Finite 1000)"
proof -
  have "500 powr 1 < (500::real) powr (log 10 250 / (log 10 1500 * 14 / 23))"
    using scale_50 by (rule powr_less_mono) simp
  then show ?thesis
    by (simp add: y_range_def max_log_50)
qed

text \<open>
  C1, as stated: for \<open>min = 1\<close>, \<open>max = 100\<close>, \<open>zoneMax = 50\<close>, the legend box from
  \<open>y = 0.56\<close> to \<open>y = 0.88\<close> and the margins \<open>0.12, 0.06, 0.08, 0\<close>, the rescale is not
  triggered and the upper bound is exactly 1000. It fails: line 254 measures the legend
  from its lower edge \<^verbatim>\<open>leg->GetY1()\<close>, which is \<open>0.56\<close>, so the collision decade is
  about 1.23, below \<open>log10(50)\<close>, which is about 1.70. The rescale is triggered and the
  upper bound is not 1000.
\<close>

theorem log_example_counterexample:
  "rescale_log plot_leg plot_pad1 \<lparr>rmin = 1, rmax = 100, rThreshMax = 50\<rparr>
   \<and> snd (y_range True plot_leg plot_pad1 \<lparr>rmin = 1, rmax = 100, rThreshMax = 50\<rparr>) \<noteq> Finite 1000"
proof -
  have "500 powr 1 < (500::real) powr (log 10 250 / (log 10 1500 * 14 / 23))"
    using scale_50 by (rule powr_less_mono) simp
  then have "snd (y_range True plot_leg plot_pad1 \<lparr>rmin = 1, rmax = 100, rThreshMax = 50\<rparr>) \<noteq> Finite 1000"
    by (simp add: y_range_def max_log_50)
  with rescale_log_50 show ?thesis by simp
qed

text \<open>
  C1, amended: in the logarithmic branch, whenever the zone maximum stays below the
  legend's collision decade, that is whenever the test of line 256 fails, no rescale is
  triggered and the range is from \<open>0.2\<close> to \<open>10 * max\<close>. The test fails for every zone
  maximum that is zero or negative; for a positive maximum and zone maximum on a pad of
  nonzero height it fails exactly when the zone maximum is at most
  \<open>0.2 * (15 * max)^((y1 - bottomMargin) / ((1 - topMargin) - bottomMargin))\<close>, with
  \<open>y1\<close> the lower edge of the legend. For \<open>min = 1\<close>, \<open>max = 100\<close>, \<open>zoneMax = 50\<close>,
  the legend of \<^verbatim>\<open>plot\<close> and the margins \<open>0.12, 0.06, 0.08, 0\<close>, the rescale is
  triggered and the upper bound is greater than 1000.
\<close>

theorem log_branch_upper_bound:
  "(\<not> rescale_log l p g \<longrightarrow>
      max_log l p g = Finite (rmax g) \<and> y_range True l p g = (2 / 10, Finite (10 * rmax g)))
   \<and> (rThreshMax g \<le> 0 \<longrightarrow> \<not> rescale_log l p g)
   \<and> (0 < rmax g \<and> 0 < rThreshMax g \<and> (1 - TopMargin p) - BottomMargin p \<noteq> 0 \<longrightarrow>
        (rescale_log l p g \<longleftrightarrow>
           2 / 10 * (15 * rmax g) powr ((Y1 l - BottomMargin p) / ((1 - TopMargin p) - BottomMargin p))
             < rThreshMax g))
   \<and> rescale_log plot_leg plot_pad1 \<lparr>rmin = 1, rmax = 100, rThreshMax = 50\<rparr>
   \<and> d_gt (snd (y_range True plot_leg plot_pad1 \<lparr>rmin = 1, rmax = 100, rThreshMax = 50\<rparr>)) (Finite 1000)"
proof (intro conjI impI)
  assume n: "\<not> rescale_log l p g"
  then show m: "max_log l p g = Finite (rmax g)"
    by (simp add: max_log_def)
  then show "y_range True l p g = (2 / 10, Finite (10 * rmax g))"
    by (simp add: y_range_def locMin_log_fifth)
next
  assume "rThreshMax g \<le> 0"
  then show "\<not> rescale_log l p g"
    by (rule rescale_log_nonpos)
next
  assume "0 < rmax g \<and> 0 < rThreshMax g \<and> (1 - TopMargin p) - BottomMargin p \<noteq> 0"
  then show "rescale_log l p g \<longleftrightarrow>
           2 / 10 * (15 * rmax g) powr ((Y1 l - BottomMargin p) / ((1 - TopMargin p) - BottomMargin p))
             < rThreshMax g"
    by (intro rescale_log_iff) simp_all
next
  show "rescale_log plot_leg plot_pad1 \<lparr>rmin = 1, rmax = 100, rThreshMax = 50\<rparr>"
    by (rule rescale_log_50)
next
  show "d_gt (snd (y_range True plot_leg plot_pad1 \<lparr>rmin = 1, rmax = 100, rThreshMax = 50\<rparr>)) (Finite 1000)"
    by (rule upper_50)
qed

text \<open>
  With \<open>zoneMax = 10\<close> in place of 50 the example stays clear of the legend and the upper
  bound is 1000; with an empty legend zone (\<open>zoneMax = 0\<close>) and \<open>max = 0.5\<close> it is 5.
\<close>

theorem log_branch_upper_bound_witness:
  "y_range True plot_leg plot_pad1 \<lparr>rmin = 1, rmax = 100, rThreshMax = 10\<rparr> = (2 / 10, Finite 1000)
   \<and> y_range True plot_leg plot_pad1 \<lparr>rmin = 0, rmax = 1 / 2, rThreshMax = 0\<rparr> = (2 / 10, Finite 5)"
proof -
  have "\<not> 2 / 10 * (15 * 100) powr (14 / 23) < (10::real)"
    using powr_1500_lower by simp
  with log_branch_upper_bound [of plot_leg plot_pad1 "\<lparr>rmin = 1, rmax = 100, rThreshMax = 10\<rparr>"]
    plot_height
  have a: "y_range True plot_leg plot_pad1 \<lparr>rmin = 1, rmax = 100, rThreshMax = 10\<rparr> = (2 / 10, Finite 1000)"
    by (simp only: plot_exponent) simp
  from log_branch_upper_bound [of plot_leg plot_pad1 "\<lparr>rmin = 0, rmax = 1 / 2, rThreshMax = 0\<rparr>"]
  have b: "y_range True plot_leg plot_pad1 \<lparr>rmin = 0, rmax = 1 / 2, rThreshMax = 0\<rparr> = (2 / 10, Finite 5)"
    by simp
  from a b show ?thesis by simp
qed

subsection \<open>The linear branch\<close>

text \<open>
  C4, as stated: \<open>legendMin\<close> is computed from the top of the legend. It fails: line 266
  reads \<^verbatim>\<open>leg->GetY1()\<close>, the lower edge. For \<open>max = 10\<close>, \<open>zoneMax = 9\<close>, the legend
  of \<^verbatim>\<open>plot\<close> (top \<open>0.88\<close>) and the margins \<open>0.12, 0.06, 0.08, 0\<close>, the stated
  formula gives about 11.48, which 9 does not exceed, so the bound would be \<open>1.3 * 10\<close>;
  the code computes about 7.30, rescales, and returns another bound.
\<close>

theorem linear_legendTop_counterexample:
  "legMin_lin plot_leg plot_pad1 \<lparr>rmin = 0, rmax = 10, rThreshMax = 9\<rparr>
     \<noteq> spec_legendMin_lin plot_leg plot_pad1 \<lparr>rmin = 0, rmax = 10, rThreshMax = 9\<rparr>
   \<and> \<not> rThreshMax \<lparr>rmin = 0, rmax = 10, rThreshMax = 9\<rparr>
        > spec_legendMin_lin plot_leg plot_pad1 \<lparr>rmin = 0, rmax = 10, rThreshMax = 9\<rparr>
   \<and> snd (y_range False plot_leg plot_pad1 \<lparr>rmin = 0, rmax = 10, rThreshMax = 9\<rparr>)
        \<noteq> Finite (13 / 10 * rmax \<lparr>rmin = 0, rmax = 10, rThreshMax = 9\<rparr>)"
  by (simp add: y_range_def max_lin_def legMin_lin_def spec_legendMin_lin_def plot_leg_def plot_pad1_def)

text \<open>
  C4, amended: in the linear branch, on a pad with \<open>bottomMargin < 1 - topMargin\<close>,
  \<open>legendMin = 1.2 * max * (y1 - bottomMargin) / ((1 - topMargin) - bottomMargin)\<close>
  where \<open>y1\<close> is the lower edge of the legend; if \<open>zoneMax > legendMin\<close> (and
  \<open>legendMin\<close> is not zero) then \<open>max\<close> is rescaled by exactly \<open>zoneMax / legendMin\<close>,
  otherwise it is unchanged; the upper bound is \<open>1.3 * max\<close> and the lower bound is 0.
\<close>

theorem linear_branch_range:
  assumes "BottomMargin p < 1 - TopMargin p"
  shows "legMin_lin l p g
           = 12 / 10 * rmax g * (Y1 l - BottomMargin p) / ((1 - TopMargin p) - BottomMargin p)
       \<and> (legMin_lin l p g < rThreshMax g \<and> legMin_lin l p g \<noteq> 0 \<longrightarrow>
            y_range False l p g = (0, Finite (13 / 10 * (rmax g * (rThreshMax g / legMin_lin l p g)))))
       \<and> (rThreshMax g \<le> legMin_lin l p g \<longrightarrow> y_range False l p g = (0, Finite (13 / 10 * rmax g)))"
  by (simp add: y_range_def max_lin_def) (simp add: legMin_lin_def)

theorem linear_branch_range_witness:
  "legMin_lin plot_leg plot_pad1 \<lparr>rmin = 0, rmax = 10, rThreshMax = 9\<rparr> = 168 / 23
   \<and> y_range False plot_leg plot_pad1 \<lparr>rmin = 0, rmax = 10, rThreshMax = 9\<rparr> = (0, Finite (897 / 56))
   \<and> y_range False plot_leg plot_pad1 \<lparr>rmin = 0, rmax = 10, rThreshMax = 5\<rparr> = (0, Finite 13)"
proof -
  have a: "BottomMargin plot_pad1 < 1 - TopMargin plot_pad1"
    by (simp add: plot_pad1_def)
  have b: "legMin_lin plot_leg plot_pad1 \<lparr>rmin = 0, rmax = 10, rThreshMax = 9\<rparr> = 168 / 23"
    using linear_branch_range [OF a, of plot_leg "\<lparr>rmin = 0, rmax = 10, rThreshMax = 9\<rparr>"]
    by (simp add: plot_leg_def plot_pad1_def)
  have c: "legMin_lin plot_leg plot_pad1 \<lparr>rmin = 0, rmax = 10, rThreshMax = 5\<rparr> = 168 / 23"
    using linear_branch_range [OF a, of plot_leg "\<lparr>rmin = 0, rmax = 10, rThreshMax = 5\<rparr>"]
    by (simp add: plot_leg_def plot_pad1_def)
  from linear_branch_range [OF a, of plot_leg "\<lparr>rmin = 0, rmax = 10, rThreshMax = 9\<rparr>"]
    linear_branch_range [OF a, of plot_leg "\<lparr>rmin = 0, rmax = 10, rThreshMax = 5\<rparr>"] b c
  show ?thesis by simp
qed

section \<open>Properties of retrieveHistogram\<close>



section \<open>Properties of the image file name\<close>

lemma find_first_None: "find_first c xs = None \<longleftrightarrow> c \<notin> set xs"
  by (induction xs) auto

lemma find_first_split: "c \<notin> set mid \<Longrightarrow> find_first c (mid @ c # rest) = Some (length mid)"
  by (induction mid) auto

lemma string_find_none: "CHR ''/'' \<notin> set hname \<Longrightarrow> string_find hname CHR ''/'' 0 = None"
  by (simp add: string_find_def find_first_None)

lemma replace_loop_None: "replace_loop name None = Inl OutOfBoundsWrite"
  by (subst replace_loop.simps) simp

lemma map_no_slash: "CHR ''/'' \<notin> set xs \<Longrightarrow> map slash_to_underscore xs = xs"
  by (induction xs) auto

text \<open>
  Entered at a position inside the string, the loop overwrites the character there and
  every \<open>/\<close> after it. The induction is on the length of what follows the position: the
  next iteration starts at the next \<open>/\<close>, past a stretch without any.
\<close>

lemma replace_loop_at:
  "replace_loop (pre @ x # suf) (Some (length pre)) = Inr (pre @ CHR ''_'' # map slash_to_underscore suf)"
proof (induction "length suf" arbitrary: pre x suf rule: less_induct)
  case less
  have upd: "(pre @ x # suf)[length pre := CHR ''_''] = pre @ CHR ''_'' # suf"
    by simp
  have find: "string_find (pre @ CHR ''_'' # suf) CHR ''/'' (Suc (length pre))
                = map_option (\<lambda>k. Suc (length pre) + k) (find_first CHR ''/'' suf)"
    by (simp add: string_find_def)
  show ?case
  proof (cases "CHR ''/'' \<in> set suf")
    case False
    then have "find_first CHR ''/'' suf = None"
      by (simp add: find_first_None)
    with False show ?thesis
      by (subst replace_loop.simps) (simp add: upd find map_no_slash Let_def)
  next
    case True
    then obtain mid rest where suf: "suf = mid @ CHR ''/'' # rest" and mid: "CHR ''/'' \<notin> set mid"
      by (auto dest: split_list_first)
    have ff: "find_first CHR ''/'' suf = Some (length mid)"
      using mid by (simp add: suf find_first_split)
    have "length rest < length suf"
      by (simp add: suf)
    from less [OF this, of "pre @ CHR ''_'' # mid" "CHR ''/''"]
    have rec: "replace_loop (pre @ CHR ''_'' # suf) (Some (length pre + 1 + length mid))
             = Inr (pre @ CHR ''_'' # mid @ CHR ''_'' # map slash_to_underscore rest)"
      by (simp add: suf)
    have "map slash_to_underscore suf = mid @ CHR ''_'' # map slash_to_underscore rest"
      using mid by (simp add: suf map_no_slash)
    with rec show ?thesis
      by (subst replace_loop.simps) (simp add: upd find ff Let_def)
  qed
qed

lemma replace_loop_first:
  assumes "CHR ''/'' \<in> set hname"
  shows "replace_loop hname (string_find hname CHR ''/'' 0) = Inr (map slash_to_underscore hname)"
proof -
  from assms obtain mid rest where n: "hname = mid @ CHR ''/'' # rest" and mid: "CHR ''/'' \<notin> set mid"
    by (auto dest: split_list_first)
  have "string_find hname CHR ''/'' 0 = Some (length mid)"
    using mid by (simp add: string_find_def n find_first_split)
  then show ?thesis
    using mid replace_loop_at [of mid "CHR ''/''" rest] by (simp add: n map_no_slash)
qed

text \<open>For a name with a \<open>/\<close> the file is named as intended, up to a NUL in the name.\<close>

lemma plot_png_name_slash:
  "CHR ''/'' \<in> set hname \<Longrightarrow>
     plot_png_name hname = Inr (c_str (map slash_to_underscore hname @ ''.png''))"
  by (simp add: plot_png_name_def replace_loop_first)

text \<open>
  C9: for every histogram name, the image file is named after the name with every \<open>/\<close>
  replaced by \<open>_\<close>, followed by \<open>.png\<close>. The loop of lines 372 to 376 attempts this and
  misses the names without a \<open>/\<close>: for \<open>nJets\<close> the first \<^verbatim>\<open>find\<close> returns
  \<^verbatim>\<open>npos\<close>, the body writes \<^verbatim>\<open>name[npos]\<close>, and no file name is defined.
\<close>

theorem plot_png_name_no_slash: "plot_png_name ''nJets'' = Inl OutOfBoundsWrite"
  by (simp add: plot_png_name_def string_find_def replace_loop_None)

text \<open>
  C10: the loop writes at the found position before it tests it. If the name contains no
  \<open>/\<close>, the first \<^verbatim>\<open>find\<close> returns \<^verbatim>\<open>npos\<close> and the write is out of bounds; if the
  name contains a \<open>/\<close>, the loop is defined and replaces every \<open>/\<close> by \<open>_\<close>.
\<close>

theorem replace_loop_defined_iff_slash:
  "(CHR ''/'' \<notin> set hname \<longrightarrow>
      string_find hname CHR ''/'' 0 = None \<and>
      replace_loop hname (string_find hname CHR ''/'' 0) = Inl OutOfBoundsWrite \<and>
      plot_png_name hname = Inl OutOfBoundsWrite)
   \<and> (CHR ''/'' \<in> set hname \<longrightarrow>
      replace_loop hname (string_find hname CHR ''/'' 0)
        = Inr (map (\<lambda>c. if c = CHR ''/'' then CHR ''_'' else c) hname))"
  by (simp add: string_find_none replace_loop_None replace_loop_first plot_png_name_def)

theorem replace_loop_defined_iff_slash_witness:
  "replace_loop ''nTops'' (string_find ''nTops'' CHR ''/'' 0) = Inl OutOfBoundsWrite
   \<and> replace_loop ''QCD/fakerate/HT'' (string_find ''QCD/fakerate/HT'' CHR ''/'' 0) = Inr ''QCD_fakerate_HT''"
  using replace_loop_defined_iff_slash [of "''nTops''"] replace_loop_defined_iff_slash [of "''QCD/fakerate/HT''"]
  by (simp add: string_find_def)

end
